theory Spec2Isabelle
  imports Main
begin

section \<open>JavaScript values\<close>

text \<open>
  Parameter bags of the conversation contexts hold strings; reading a property that
  was never written yields \<open>undefined\<close>. Two object references occur as values in
  the code modelled here: the webhook agent and the session-props context object.
\<close>

datatype objref = AgentObject | SessionParamsObject

datatype jsval = JUndefined | JString string | JObject objref

text \<open>String conversion as performed by the \<open>+\<close> operator on a string operand.\<close>

fun js_toString :: "jsval \<Rightarrow> string" where
  "js_toString JUndefined = ''undefined''"
| "js_toString (JString s) = s"
| "js_toString (JObject r) = ''[object Object]''"

text \<open>Positional binding of call arguments: a missing argument is \<open>undefined\<close>.\<close>

definition js_arg :: "jsval list \<Rightarrow> nat \<Rightarrow> jsval" where
  "js_arg args i = (if i < length args then args ! i else JUndefined)"

text \<open>A default parameter value replaces an \<open>undefined\<close> argument.\<close>

definition js_default :: "jsval \<Rightarrow> jsval \<Rightarrow> jsval" where
  "js_default d a = (if a = JUndefined then d else a)"

text \<open>\<open>String.prototype.split\<close> with a one-character separator, and \<open>Array.prototype.join\<close>.\<close>

fun split_on :: "char \<Rightarrow> string \<Rightarrow> string list" where
  "split_on c [] = [[]]"
| "split_on c (x # xs) =
     (if x = c then [] # split_on c xs
      else (case split_on c xs of [] \<Rightarrow> [[x]] | r # rs \<Rightarrow> (x # r) # rs))"

fun join :: "string \<Rightarrow> string list \<Rightarrow> string" where
  "join sep [] = []"
| "join sep [x] = x"
| "join sep (x # y # ys) = x @ sep @ join sep (y # ys)"

datatype error = TypeError string | Error string

datatype outcome = Returned | Threw error

section \<open>Contexts, the webhook agent and the dialog context\<close>

type_synonym params = "string \<Rightarrow> jsval"

record "context" =
  name :: string
  lifespan :: nat
  parameters :: params

text \<open>
  The webhook agent of the host transport, as far as the orchestration code uses it:
  the detected action, the session path, the name-indexed context store, the default
  responses, and what was handed to \<open>add\<close> and \<open>setFollowupEvent\<close>.
\<close>

record agent =
  action :: string
  session :: string
  contexts :: "string \<rightharpoonup> context"
  consoleMessages :: "string list"
  responses :: "jsval list"
  followupEvent :: "jsval option"

text \<open>
  \<open>DialogContext\<close>: the session-props context object is held in \<open>sessionParams\<close>;
  the current sequence object and the current intent context are held by name
  (\<open>None\<close> is the empty object \<open>{}\<close>), since both live in registries indexed by name.
\<close>

record dialogContext =
  sessionId :: string
  dialogflowAgent :: agent
  sessionParams :: "context"
  currentSequence :: string
  currentContext :: "string option"

definition DEF_CTX_LIFESPAN :: nat where "DEF_CTX_LIFESPAN = 99"
definition CTX_WELCOME :: string where "CTX_WELCOME = ''welcome''"
definition CTX_RFC :: string where "CTX_RFC = ''reasonforcontact''"
definition CTX_AUTH :: string where "CTX_AUTH = ''authentication''"
definition CTX_PWRESET :: string where "CTX_PWRESET = ''passwordreset''"
definition SESSION_PROPS :: string where "SESSION_PROPS = ''sessionprops''"

text \<open>\<open>agent.context.get(name)\<close> and \<open>agent.context.set(context)\<close> of the host transport.\<close>

definition context_get :: "agent \<Rightarrow> string \<Rightarrow> context option" where
  "context_get ag n = contexts ag n"

definition context_set :: "context \<Rightarrow> agent \<Rightarrow> agent" where
  "context_set c ag = ag\<lparr>contexts := (contexts ag)(name c \<mapsto> c)\<rparr>"

text \<open>\<open>agent.add(response)\<close> and \<open>agent.setFollowupEvent(event)\<close>: the argument is recorded.\<close>

definition agent_add :: "jsval \<Rightarrow> agent \<Rightarrow> agent" where
  "agent_add v ag = ag\<lparr>responses := responses ag @ [v]\<rparr>"

definition agent_setFollowupEvent :: "jsval \<Rightarrow> agent \<Rightarrow> agent" where
  "agent_setFollowupEvent v ag = ag\<lparr>followupEvent := Some v\<rparr>"

section \<open>Sequences and intents\<close>

text \<open>
  A \<open>Sequence\<close> object with its backing fields \<open>_name\<close>, \<open>_activity\<close>,
  \<open>_authRequired\<close>, \<open>_params\<close> and its \<open>navigate\<close> function. For the activity the
  class declares \<^verbatim>\<open>get ativity() { return this._activity; }\<close> and
  \<^verbatim>\<open>set activity(value) { this._activity = value; }\<close>: the property \<open>ativity\<close>
  reads the field, and the property \<open>activity\<close> is an accessor with a setter only,
  so that reading it yields \<open>undefined\<close>.
\<close>

record sequence =
  seq_name :: string
  seq_activity :: string
  seq_authRequired :: bool
  seq_params :: "(string \<times> jsval) list"
  navigate :: "dialogContext \<Rightarrow> outcome \<times> dialogContext"

definition ativity :: "sequence \<Rightarrow> jsval" where
  "ativity s = JString (seq_activity s)"

definition activity :: "sequence \<Rightarrow> jsval" where
  "activity s = JUndefined"

record intent =
  intent_action :: string
  sequenceName :: string
  waitForReply :: bool
  handler :: "dialogContext \<Rightarrow> outcome \<times> dialogContext"

subsection \<open>SequenceManager\<close>

type_synonym sequenceManager = "string \<rightharpoonup> sequence"

definition SequenceManager_get :: "sequenceManager \<Rightarrow> string \<Rightarrow> sequence option" where
  "SequenceManager_get m n = m n"

text \<open>The lookup key read from a parameter bag: only a string can match a registered name.\<close>

definition SequenceManager_get_val :: "sequenceManager \<Rightarrow> jsval \<Rightarrow> sequence option" where
  "SequenceManager_get_val m v = (case v of JString n \<Rightarrow> SequenceManager_get m n | _ \<Rightarrow> None)"

definition SequenceManager_has :: "sequenceManager \<Rightarrow> string \<Rightarrow> bool" where
  "SequenceManager_has m n = (m n \<noteq> None)"

definition registerSequence :: "sequence \<Rightarrow> sequenceManager \<Rightarrow> outcome \<times> sequenceManager" where
  "registerSequence s m =
     (if SequenceManager_has m (seq_name s)
      then (Threw (Error (''Sequence '' @ seq_name s @ '' is already registered.'')), m)
      else (Returned, m(seq_name s \<mapsto> s)))"

subsection \<open>IntentManager\<close>

record intentManager =
  intents :: "string \<rightharpoonup> intent"
  intentContexts :: "string \<rightharpoonup> string"

definition IntentManager_has :: "intentManager \<Rightarrow> string \<Rightarrow> bool" where
  "IntentManager_has im n = (intents im n \<noteq> None)"

definition IntentManager_get :: "intentManager \<Rightarrow> string \<Rightarrow> intent option" where
  "IntentManager_get im n = intents im n"

definition hasContext :: "intentManager \<Rightarrow> string \<Rightarrow> bool" where
  "hasContext im n = (intentContexts im n \<noteq> None)"

definition getContext :: "intentManager \<Rightarrow> string \<Rightarrow> string option" where
  "getContext im n = intentContexts im n"

definition registerIntent :: "intent \<Rightarrow> intentManager \<Rightarrow> outcome \<times> intentManager" where
  "registerIntent i im =
     (if IntentManager_has im (intent_action i)
      then (Threw (Error (''Intent action '' @ intent_action i @ '' is already registered.'')), im)
      else (Returned, im\<lparr>intents := (intents im)(intent_action i \<mapsto> i),
                           intentContexts := (intentContexts im)(intent_action i \<mapsto> sequenceName i)\<rparr>))"

section \<open>DialogContext operations\<close>

text \<open>
  Logging is left out of the model: the calls of \<open>console\<close> and of the formatter
  \<open>fmtLog\<close> (imported from \<open>common\<close>, which does not export it in the sources at hand)
  write no state. Where a log message reads a property of a value that may be
  \<open>undefined\<close>, the TypeError is kept.
\<close>

text \<open>\<open>dialogContext.params\<close>: the parameter bag of the session-props context.\<close>

definition params :: "dialogContext \<Rightarrow> params" where
  "params dc = parameters (sessionParams dc)"

text \<open>A plain property write \<open>this._sessionParams.parameters[k] = v\<close>.\<close>

definition assignSessionParam :: "string \<Rightarrow> jsval \<Rightarrow> dialogContext \<Rightarrow> dialogContext" where
  "assignSessionParam k v dc =
     dc\<lparr>sessionParams := (sessionParams dc)\<lparr>parameters := (parameters (sessionParams dc))(k := v)\<rparr>\<rparr>"

text \<open>
  \<open>updateDialogflowEsContext(context)\<close> for the session-props context with the default
  lifespan, the only way the code below calls it: refresh the lifespan and hand the
  context to the store.
\<close>

definition updateDialogflowEsContext :: "dialogContext \<Rightarrow> dialogContext" where
  "updateDialogflowEsContext dc =
     (let c = (sessionParams dc)\<lparr>lifespan := DEF_CTX_LIFESPAN\<rparr>
      in dc\<lparr>sessionParams := c, dialogflowAgent := context_set c (dialogflowAgent dc)\<rparr>)"

text \<open>\<open>setParam(this._sessionParams, k, v)\<close> and \<open>setParams(this._sessionParams, {...})\<close>.\<close>

definition setSessionParam :: "string \<Rightarrow> jsval \<Rightarrow> dialogContext \<Rightarrow> dialogContext" where
  "setSessionParam k v dc = updateDialogflowEsContext (assignSessionParam k v dc)"

definition setSessionParams :: "(string \<times> jsval) list \<Rightarrow> dialogContext \<Rightarrow> dialogContext" where
  "setSessionParams kvs dc =
     updateDialogflowEsContext (fold (\<lambda>(k, v). assignSessionParam k v) kvs dc)"

subsection \<open>The sequence stack\<close>

definition pushSequence :: "string \<Rightarrow> dialogContext \<Rightarrow> dialogContext" where
  "pushSequence nm dc =
     (let dc1 = assignSessionParam ''sequenceCurrent'' (JString nm) dc;
          stack = params dc1 ''sequenceStack''
      in if stack = JString CTX_WELCOME \<or> stack = JString []
         then (let dc2 = assignSessionParam ''sequenceStack''
                           (JString (if nm = CTX_RFC then nm else CTX_RFC @ ''|'' @ nm)) dc1;
                   dc3 = (if nm \<noteq> CTX_RFC
                          then assignSessionParam ''triggeredSkill'' (JString ''1'') dc2
                          else dc2)
               in updateDialogflowEsContext dc3)
         else updateDialogflowEsContext
                (assignSessionParam ''sequenceStack''
                   (JString (js_toString stack @ ''|'' @ nm)) dc1))"

text \<open>
  \<open>popSequence\<close>: \<open>indexOf\<close> and \<open>split\<close> are string methods, so a stack that is not a
  string raises a TypeError. The integrity check on the top entry only logs.
\<close>

definition popSequence :: "string \<Rightarrow> dialogContext \<Rightarrow> outcome \<times> dialogContext" where
  "popSequence nm dc =
     (case params dc ''sequenceStack'' of
        JString stack \<Rightarrow>
          if CHR ''|'' \<notin> set stack
          then (Returned, setSessionParams
                  [(''sequenceCurrent'', JString CTX_RFC),
                   (''sequenceStack'', JString (if nm = CTX_RFC then nm else CTX_RFC))] dc)
          else (let sequenceStack = split_on (CHR ''|'') stack;
                    newSequenceStack = butlast sequenceStack;
                    newSequence = (if newSequenceStack = [] then JUndefined
                                   else JString (last newSequenceStack));
                    newSequenceStackString = join ''|'' newSequenceStack
                in (Returned, setSessionParams
                      [(''sequenceCurrent'', newSequence),
                       (''sequenceStack'', JString newSequenceStackString)] dc))
      | _ \<Rightarrow> (Threw (TypeError ''sequenceStack.indexOf is not a function''), dc))"

subsection \<open>Fulfillment text, responses and follow-up events\<close>

text \<open>
  \<open>setFulfillmentText(fulfillmentText = '|')\<close>: without a text the first default
  response of the agent is taken; reading \<open>.text\<close> of a missing first message raises.
\<close>

definition setFulfillmentText :: "jsval \<Rightarrow> dialogContext \<Rightarrow> outcome \<times> dialogContext" where
  "setFulfillmentText a dc =
     (let fulfillmentText = js_default (JString ''|'') a
      in if fulfillmentText \<noteq> JString ''|''
         then (Returned, updateDialogflowEsContext
                 (assignSessionParam ''lastFulfillmentText'' fulfillmentText dc))
         else (case consoleMessages (dialogflowAgent dc) of
                 [] \<Rightarrow> (Threw (TypeError ''consoleMessages[0] is undefined''), dc)
               | m # ms \<Rightarrow> (Returned, updateDialogflowEsContext
                              (assignSessionParam ''lastFulfillmentText'' (JString m) dc))))"

definition respondWithText :: "jsval \<Rightarrow> dialogContext \<Rightarrow> dialogContext" where
  "respondWithText a dc =
     (let fulfillmentText = js_default (JString ''|'') a
      in dc\<lparr>dialogflowAgent :=
              agent_add (if fulfillmentText \<noteq> JString ''|'' then fulfillmentText
                         else params dc ''lastFulfillmentText'')
                (dialogflowAgent dc)\<rparr>)"

definition respondWithEvent :: "jsval \<Rightarrow> jsval \<Rightarrow> dialogContext \<Rightarrow> dialogContext" where
  "respondWithEvent eventName a dc =
     (let fulfillmentText = js_default (JString ''|'') a;
          dc1 = dc\<lparr>dialogflowAgent :=
                     agent_add (if fulfillmentText \<noteq> JString ''|'' then fulfillmentText
                                else params dc ''lastFulfillmentText'')
                       (dialogflowAgent dc)\<rparr>;
          dc2 = setSessionParam ''lastEvent'' eventName dc1
      in dc2\<lparr>dialogflowAgent := agent_setFollowupEvent eventName (dialogflowAgent dc2)\<rparr>)"

text \<open>
  The constructor binds \<open>this.setFollowupEvent = this.respondWithEvent.bind(this)\<close>: a
  call of \<open>setFollowupEvent\<close> binds its first two arguments to \<open>eventName\<close> and
  \<open>fulfillmentText\<close> and drops the rest.
\<close>

definition setFollowupEvent :: "jsval list \<Rightarrow> dialogContext \<Rightarrow> dialogContext" where
  "setFollowupEvent args dc = respondWithEvent (js_arg args 0) (js_arg args 1) dc"

definition resetOfferedAgentFlags :: "dialogContext \<Rightarrow> dialogContext" where
  "resetOfferedAgentFlags dc =
     setSessionParams [(''offeredAgent'', JString ''0''),
                       (''offeredAgentAccepted'', JString ''0''),
                       (''offeredAgentDeclined'', JString ''0'')] dc"

section \<open>ContextManager\<close>

text \<open>\<open>createCtx(name, params)\<close>: a fresh context with a copy of the own properties of \<open>params\<close>.\<close>

definition createCtx :: "string \<Rightarrow> (string \<times> jsval) list \<Rightarrow> context" where
  "createCtx n ps =
     \<lparr>name = n, lifespan = DEF_CTX_LIFESPAN,
      parameters = fold (\<lambda>(k, v) p. p(k := v)) ps (\<lambda>k. JUndefined)\<rparr>"

text \<open>
  \<open>getOrCreateCtx(agent, name)\<close>: a context missing from the store is created from the
  sequence registered under that name; without such a sequence \<open>sequence.name\<close> raises.
\<close>

definition getOrCreateCtx ::
  "sequenceManager \<Rightarrow> agent \<Rightarrow> string \<Rightarrow> (error \<times> agent) + (context \<times> agent)" where
  "getOrCreateCtx sm ag n =
     (case context_get ag n of
        Some c \<Rightarrow> Inr (c, ag)
      | None \<Rightarrow>
          (case SequenceManager_get sm n of
             None \<Rightarrow> Inl (TypeError ''sequence is undefined'', ag)
           | Some s \<Rightarrow> (let c = createCtx (seq_name s) (seq_params s)
                        in Inr (c, context_set c ag))))"

text \<open>\<open>isAuthRequired()\<close> fetches (or creates) the authentication context first.\<close>

definition isAuthRequired ::
  "sequenceManager \<Rightarrow> dialogContext \<Rightarrow> (error \<times> dialogContext) + (bool \<times> dialogContext)" where
  "isAuthRequired sm dc =
     (case getOrCreateCtx sm (dialogflowAgent dc) CTX_AUTH of
        Inl (e, ag) \<Rightarrow> Inl (e, dc\<lparr>dialogflowAgent := ag\<rparr>)
      | Inr (c, ag) \<Rightarrow>
          Inr (params dc ''customerIdentified'' = JString ''0''
               \<or> params dc ''customerValidated'' = JString ''0''
               \<or> parameters c ''validationStatus'' \<noteq> JString ''1'',
               dc\<lparr>dialogflowAgent := ag\<rparr>))"

section \<open>Observed calls\<close>

text \<open>
  The orchestration functions return, next to the outcome and the new state, the list
  of calls they made into user code, in order: intent handlers, sequence navigation,
  the authentication gate and the bootstrap hooks. User code cannot write to it.
\<close>

datatype event =
    EvHandler string
  | EvNavigate string
  | EvRequireAuthentication
  | EvPopulateFromEsPayload
  | EvPayloadHandler nat
  | EvPopulateFromLookup

type_synonym step = "outcome \<times> dialogContext \<times> event list"

text \<open>Calling \<open>navigate\<close> on the result of a registry lookup; \<open>undefined\<close> raises.\<close>

definition call_navigate :: "sequence option \<Rightarrow> dialogContext \<Rightarrow> step" where
  "call_navigate so dc =
     (case so of
        None \<Rightarrow> (Threw (TypeError ''sequence is undefined''), dc, [])
      | Some s \<Rightarrow> (let (out, dc1) = navigate s dc in (out, dc1, [EvNavigate (seq_name s)])))"

definition popSequenceAndNavigate :: "sequenceManager \<Rightarrow> string \<Rightarrow> dialogContext \<Rightarrow> step" where
  "popSequenceAndNavigate sm nm dc =
     (case popSequence nm dc of
        (Threw e, dc1) \<Rightarrow> (Threw e, dc1, [])
      | (Returned, dc1) \<Rightarrow>
          call_navigate (SequenceManager_get_val sm (params dc1 ''sequenceCurrent'')) dc1)"

subsection \<open>The authentication gate\<close>

text \<open>
  The part of \<open>handleRequireAuthentication\<close> from the test for a failed validation
  (\<open>validationStatus === '2'\<close>) to the end. \<open>sequenceCurrent\<close> is the sequence fetched
  when the gate was entered, \<open>context\<close> the authentication context.
\<close>

definition requireAuthentication_tail ::
  "sequenceManager \<Rightarrow> sequence option \<Rightarrow> context \<Rightarrow> dialogContext \<Rightarrow> step" where
  "requireAuthentication_tail sm sequenceCurrent context dc =
     (let pushAuth = call_navigate (SequenceManager_get sm CTX_AUTH) (pushSequence CTX_AUTH dc)
      in if parameters context ''validationStatus'' = JString ''2''
         then (if params dc ''offeredAgent'' = JString ''0''
               then (case sequenceCurrent of
                       None \<Rightarrow> (Threw (TypeError ''sequenceCurrent is undefined''), dc, [])
                     | Some sq \<Rightarrow>
                         (let dc1 = setSessionParam ''lastFulfillmentText''
                                      (JString (''I'm sorry, but '' @ js_toString (activity sq)
                                         @ '' isn't something I can do without validating your identity.''))
                                      dc
                          in (Returned,
                              setFollowupEvent
                                [JObject AgentObject, JObject SessionParamsObject,
                                 JString ''OfferSpeakToAgent'', params dc1 ''lastFulfillmentText'']
                                dc1,
                              [])))
               else if params dc ''offeredAgentAccepted'' = JString ''1''
               then (Returned,
                     setFollowupEvent
                       [JObject AgentObject, JObject SessionParamsObject,
                        JString ''EscalateToAgent'', params dc ''lastFulfillmentText'']
                       dc,
                     [])
               else if params dc ''offeredAgentDeclined'' = JString ''1''
               then popSequenceAndNavigate sm CTX_PWRESET (resetOfferedAgentFlags dc)
               else pushAuth)
         else pushAuth)"

text \<open>
  \<open>handleRequireAuthentication\<close>. The branch for \<open>validationStatus === '1'\<close> has no
  \<open>return\<close>: after navigating, control reaches the test for \<open>'2'\<close>, which reads the
  authentication context as the navigation left it in the store.
\<close>

definition handleRequireAuthentication :: "sequenceManager \<Rightarrow> dialogContext \<Rightarrow> step" where
  "handleRequireAuthentication sm dc0 =
     (case getOrCreateCtx sm (dialogflowAgent dc0) CTX_AUTH of
        Inl (e, ag) \<Rightarrow> (Threw e, dc0\<lparr>dialogflowAgent := ag\<rparr>, [])
      | Inr (context, ag) \<Rightarrow>
          (let dc = dc0\<lparr>dialogflowAgent := ag\<rparr>;
               sequenceCurrent = SequenceManager_get_val sm (params dc ''sequenceCurrent'')
           in if parameters context ''validationStatus'' = JString ''1''
              then (let dc1 = setSessionParam ''customerValidated'' (JString ''1'') dc
                    in case call_navigate
                              (SequenceManager_get_val sm (params dc1 ''sequenceCurrent'')) dc1 of
                         (Threw e, dc2, tr) \<Rightarrow> (Threw e, dc2, tr)
                       | (Returned, dc2, tr) \<Rightarrow>
                           (let context2 = (case context_get (dialogflowAgent dc2) CTX_AUTH of
                                              Some c \<Rightarrow> c | None \<Rightarrow> context);
                                (out, dc3, tr3) =
                                  requireAuthentication_tail sm sequenceCurrent context2 dc2
                            in (out, dc3, tr @ tr3)))
              else requireAuthentication_tail sm sequenceCurrent context dc))"

section \<open>DialogFlowEsClient\<close>

type_synonym hook = "dialogContext \<Rightarrow> outcome \<times> dialogContext"

text \<open>
  The client with its registries, the parameter sets and payload handlers of the
  registered connectors (in registration order), the two injected population hooks
  and the base parameters. A hook receives the session-props context and returns it;
  it is modelled as a transformer of the dialog context that holds that object.
\<close>

record client =
  sequenceManager :: sequenceManager
  intentManager :: intentManager
  parameterSets :: "(string \<times> jsval) list list"
  payloadHandlers :: "hook list"
  populateFromEsPayload :: hook
  populateFromLookup :: hook
  baseParams :: params

definition handleIntentAndNavigate :: "client \<Rightarrow> dialogContext \<Rightarrow> string \<Rightarrow> step" where
  "handleIntentAndNavigate cl dc intentAction =
     (case IntentManager_get (intentManager cl) intentAction of
        None \<Rightarrow> (Threw (TypeError ''intent is undefined''), dc, [])
      | Some intent \<Rightarrow>
          (case handler intent dc of
             (Threw e, dc1) \<Rightarrow> (Threw e, dc1, [EvHandler intentAction])
           | (Returned, dc1) \<Rightarrow>
               (let sequenceUpdated =
                      SequenceManager_get_val (sequenceManager cl) (params dc1 ''sequenceCurrent'')
                in if params dc1 ''responseAlreadySet'' = JString ''1''
                   then (Returned,
                         (if waitForReply intent
                          then setSessionParam ''lastAction'' (JString intentAction) dc1
                          else dc1),
                         [EvHandler intentAction])
                   else if waitForReply intent
                   then (let dc2 = setSessionParam ''lastAction'' (JString intentAction) dc1
                         in (Returned,
                             respondWithText (params dc2 ''lastFulfillmentText'') dc2,
                             [EvHandler intentAction]))
                   else (case sequenceUpdated of
                           None \<Rightarrow> (Threw (TypeError ''sequenceUpdated is undefined''), dc1,
                                    [EvHandler intentAction])
                         | Some su \<Rightarrow>
                             if seq_authRequired su
                             then (case isAuthRequired (sequenceManager cl) dc1 of
                                     Inl (e, dc2) \<Rightarrow> (Threw e, dc2, [EvHandler intentAction])
                                   | Inr (required, dc2) \<Rightarrow>
                                       if required
                                       then (let (out, dc3, tr) =
                                                   handleRequireAuthentication (sequenceManager cl) dc2
                                             in (out, dc3,
                                                 EvHandler intentAction # EvRequireAuthentication # tr))
                                       else (let (out, dc3, tr) = call_navigate (Some su) dc2
                                             in (out, dc3, EvHandler intentAction # tr)))
                             else (let (out, dc3, tr) = call_navigate (Some su) dc1
                                   in (out, dc3, EvHandler intentAction # tr))))))"

subsection \<open>Creating the session props\<close>

text \<open>
  \<open>createEsSessionProps\<close> writes into the object that the client holds in
  \<open>_baseParams\<close> and returns a context whose \<open>parameters\<close> property is that very
  object. Objects live in a store indexed by address; the context holds the address.
\<close>

type_synonym addr = nat

type_synonym objstore = "addr \<Rightarrow> params"

record contextRef =
  ref_name :: string
  ref_lifespan :: nat
  ref_parameters :: addr

definition assign_all :: "(string \<times> jsval) list \<Rightarrow> params \<Rightarrow> params" where
  "assign_all kvs p = fold (\<lambda>(k, v) q. q(k := v)) kvs p"

text \<open>The property writes of \<open>createEsSessionProps\<close>, in source order.\<close>

definition baseParamWrites :: "string \<Rightarrow> (string \<times> jsval) list" where
  "baseParamWrites sid =
     [(''sessionId'', JString sid),
      (''sessionInitialized'', JString ''0''),
      (''helpCounter'', JString ''0''),
      (''responseAlreadySet'', JString ''0''),
      (''fallbackCounter'', JString ''0''),
      (''noInputCounter'', JString ''0''),
      (''sequenceCurrent'', JString ''welcome''),
      (''sequenceStack'', JString ''welcome''),
      (''lastEvent'', JString []),
      (''lastAction'', JString []),
      (''lastFulfillmentText'', JString []),
      (''fulfillmentBuffer'', JString []),
      (''triggeredSkill'', JString ''0''),
      (''sayGoodbye'', JString ''0''),
      (''saidGoodbye'', JString ''0'')]"

definition createEsSessionProps :: "addr \<Rightarrow> string \<Rightarrow> objstore \<Rightarrow> contextRef \<times> objstore" where
  "createEsSessionProps baseParamsRef sid st =
     (\<lparr>ref_name = SESSION_PROPS, ref_lifespan = 99, ref_parameters = baseParamsRef\<rparr>,
      st(baseParamsRef := assign_all (baseParamWrites sid) (st baseParamsRef)))"

text \<open>Reading a property of a context through the store: \<open>context.parameters[k]\<close>.\<close>

definition read_parameter :: "objstore \<Rightarrow> contextRef \<Rightarrow> string \<Rightarrow> jsval" where
  "read_parameter st c k = st (ref_parameters c) k"

text \<open>
  Within one turn the new context is used by value: its content as read through the
  store right after the call, for a client whose \<open>_baseParams\<close> object holds \<open>baseParams\<close>.
\<close>

definition createEsSessionProps_value :: "client \<Rightarrow> string \<Rightarrow> context" where
  "createEsSessionProps_value cl sid =
     (let (c, st) = createEsSessionProps 0 sid (\<lambda>a. baseParams cl)
      in \<lparr>name = ref_name c, lifespan = ref_lifespan c, parameters = st (ref_parameters c)\<rparr>)"

definition getOrCreateEsSessionProps :: "client \<Rightarrow> agent \<Rightarrow> string \<Rightarrow> context \<times> agent" where
  "getOrCreateEsSessionProps cl ag sid =
     (case context_get ag SESSION_PROPS of
        Some c \<Rightarrow> (c, ag)
      | None \<Rightarrow>
          (let c0 = createEsSessionProps_value cl sid;
               c = c0\<lparr>parameters := fold assign_all (parameterSets cl) (parameters c0)\<rparr>
           in (c, context_set c ag)))"

subsection \<open>The entry point \<open>intentHandler\<close>\<close>

text \<open>\<open>agent.context.set(ctxSessionProps)\<close> for the session-props context of the turn.\<close>

definition context_set_session :: "dialogContext \<Rightarrow> dialogContext" where
  "context_set_session dc =
     dc\<lparr>dialogflowAgent := context_set (sessionParams dc) (dialogflowAgent dc)\<rparr>"

text \<open>
  From the session id to the construction of the dialog context: session props,
  current sequence (with the fallback to \<open>unassociated\<close>), and the context of the
  detected action. \<open>hasContext\<close> holds exactly when \<open>getContext\<close> finds a name, so the
  conditional on \<open>hasContext\<close> is the case distinction on \<open>getContext\<close>.
\<close>

definition intentHandler_prelude ::
  "client \<Rightarrow> agent \<Rightarrow> (error \<times> agent) + (sequence \<times> dialogContext)" where
  "intentHandler_prelude cl ag =
     (let sid = (if CHR ''/'' \<in> set (session ag) then last (split_on (CHR ''/'') (session ag))
                 else ''12345'');
          (ctxSessionProps, ag1) = getOrCreateEsSessionProps cl ag sid
      in case (case SequenceManager_get_val (sequenceManager cl)
                      (parameters ctxSessionProps ''sequenceCurrent'') of
                 Some s \<Rightarrow> Some s
               | None \<Rightarrow> SequenceManager_get (sequenceManager cl) ''unassociated'') of
           None \<Rightarrow> Inl (TypeError ''sequenceCurrent is undefined'', ag1)
         | Some sequenceCurrent \<Rightarrow>
             (case (case getContext (intentManager cl) (action ag1) of
                      None \<Rightarrow> Inr (None, ag1)
                    | Some n \<Rightarrow>
                        (case getOrCreateCtx (sequenceManager cl) ag1 n of
                           Inl (e, ag2) \<Rightarrow> Inl (e, ag2)
                         | Inr (c, ag2) \<Rightarrow> Inr (Some (name c), ag2))) of
                Inl (e, ag2) \<Rightarrow> Inl (e, ag2)
              | Inr (ctx, ag2) \<Rightarrow>
                  Inr (sequenceCurrent,
                       \<lparr>sessionId = sid, dialogflowAgent = ag2,
                        sessionParams = ctxSessionProps,
                        currentSequence = seq_name sequenceCurrent,
                        currentContext = ctx\<rparr>)))"

text \<open>The loop over the payload handlers of the connectors, by ascending index.\<close>

fun run_payloadHandlers :: "hook list \<Rightarrow> nat \<Rightarrow> dialogContext \<Rightarrow> step" where
  "run_payloadHandlers [] i dc = (Returned, dc, [])"
| "run_payloadHandlers (h # hs) i dc =
     (case h dc of
        (Threw e, dc1) \<Rightarrow> (Threw e, dc1, [EvPayloadHandler i])
      | (Returned, dc1) \<Rightarrow>
          (let (out, dc2, tr) = run_payloadHandlers hs (Suc i) dc1
           in (out, dc2, EvPayloadHandler i # tr)))"

text \<open>The session bootstrap block, gated by \<open>sessionInitialized === '0'\<close>.\<close>

definition intentHandler_bootstrap :: "client \<Rightarrow> dialogContext \<Rightarrow> step" where
  "intentHandler_bootstrap cl dc =
     (if params dc ''sessionInitialized'' = JString ''0''
      then (case populateFromEsPayload cl dc of
              (Threw e, dc1) \<Rightarrow> (Threw e, dc1, [EvPopulateFromEsPayload])
            | (Returned, dc1) \<Rightarrow>
                (case run_payloadHandlers (payloadHandlers cl) 0 dc1 of
                   (Threw e, dc2, tr) \<Rightarrow> (Threw e, dc2, EvPopulateFromEsPayload # tr)
                 | (Returned, dc2, tr) \<Rightarrow>
                     (case (if params dc2 ''customerIdentified'' = JString ''0''
                               \<or> params dc2 ''interactionSource'' = JString ''phone''
                            then (let (out, dc3) = populateFromLookup cl dc2
                                  in (out, dc3, [EvPopulateFromLookup]))
                            else (Returned, dc2, [])) of
                        (Threw e, dc3, tr3) \<Rightarrow> (Threw e, dc3, EvPopulateFromEsPayload # tr @ tr3)
                      | (Returned, dc3, tr3) \<Rightarrow>
                          (Returned,
                           context_set_session
                             (assignSessionParam ''sessionInitialized'' (JString ''1'') dc3),
                           EvPopulateFromEsPayload # tr @ tr3))))
      else (Returned, dc, []))"

text \<open>
  What every branch of the resolution chain does after \<open>handleIntentAndNavigate\<close> or
  \<open>navigate\<close> has returned: clear \<open>responseAlreadySet\<close> and store the session props.
  A thrown error skips it.
\<close>

definition resetResponseAlreadySet :: "step \<Rightarrow> step" where
  "resetResponseAlreadySet r =
     (case r of
        (Threw e, dc, tr) \<Rightarrow> (Threw e, dc, tr)
      | (Returned, dc, tr) \<Rightarrow>
          (Returned,
           context_set_session (assignSessionParam ''responseAlreadySet'' (JString ''0'') dc),
           tr))"

text \<open>
  The resolution chain: stand-alone intent, composite intent, templated intent, and
  no handler at all. \<open>sequenceCurrent\<close> is the sequence fetched by the prelude.
\<close>

definition intentHandler_resolve :: "client \<Rightarrow> sequence \<Rightarrow> dialogContext \<Rightarrow> step" where
  "intentHandler_resolve cl sequenceCurrent dc =
     (let act = action (dialogflowAgent dc)
      in if IntentManager_has (intentManager cl) act
         then resetResponseAlreadySet (handleIntentAndNavigate cl dc act)
         else
           (let lastAction = params dc ''lastAction'';
                compositeIntentName = js_toString lastAction @ ''.'' @ act
            in case (case lastAction of
                       JString la \<Rightarrow>
                         (case getContext (intentManager cl) la of
                            None \<Rightarrow> Inr (None, dialogflowAgent dc)
                          | Some n \<Rightarrow>
                              (case getOrCreateCtx (sequenceManager cl) (dialogflowAgent dc) n of
                                 Inl (e, ag1) \<Rightarrow> Inl (e, ag1)
                               | Inr (c, ag1) \<Rightarrow> Inr (Some (name c), ag1)))
                     | _ \<Rightarrow> Inr (None, dialogflowAgent dc)) of
                 Inl (e, ag1) \<Rightarrow> (Threw e, dc\<lparr>dialogflowAgent := ag1\<rparr>, [])
               | Inr (baseContext, ag1) \<Rightarrow>
                   (let dc1 = dc\<lparr>dialogflowAgent := ag1, currentContext := baseContext\<rparr>
                    in if IntentManager_has (intentManager cl) compositeIntentName
                       then resetResponseAlreadySet
                              (handleIntentAndNavigate cl dc1 compositeIntentName)
                       else
                         (let actiontemplateTail =
                                (if CHR ''.'' \<in> set act then last (split_on (CHR ''.'') act)
                                 else act)
                          in if IntentManager_has (intentManager cl) actiontemplateTail
                             then resetResponseAlreadySet
                                    (handleIntentAndNavigate cl dc1 actiontemplateTail)
                             else (case setFulfillmentText JUndefined dc1 of
                                     (Threw e, dc2) \<Rightarrow> (Threw e, dc2, [])
                                   | (Returned, dc2) \<Rightarrow>
                                       resetResponseAlreadySet
                                         (call_navigate (Some sequenceCurrent) dc2))))))"

text \<open>
  The \<open>try\<close> block of \<open>intentHandler\<close>: the three parts in sequence. A thrown error
  leaves the agent as the statements before it have changed it.
\<close>

definition intentHandler_try ::
  "client \<Rightarrow> agent \<Rightarrow> (error \<times> agent \<times> event list) + (dialogContext \<times> event list)" where
  "intentHandler_try cl ag =
     (case intentHandler_prelude cl ag of
        Inl (e, ag1) \<Rightarrow> Inl (e, ag1, [])
      | Inr (sequenceCurrent, dc) \<Rightarrow>
          (case intentHandler_bootstrap cl dc of
             (Threw e, dc1, tr) \<Rightarrow> Inl (e, dialogflowAgent dc1, tr)
           | (Returned, dc1, tr) \<Rightarrow>
               (case intentHandler_resolve cl sequenceCurrent dc1 of
                  (Threw e, dc2, tr2) \<Rightarrow> Inl (e, dialogflowAgent dc2, tr @ tr2)
                | (Returned, dc2, tr2) \<Rightarrow> Inr (dc2, tr @ tr2))))"

text \<open>
  \<open>intentHandler\<close>: the \<open>catch\<close> clause logs the error and the request ends. The result
  is the agent as left for the host transport, the observed calls and the logged
  error, if any.
\<close>

definition intentHandler :: "client \<Rightarrow> agent \<Rightarrow> agent \<times> event list \<times> error option" where
  "intentHandler cl ag =
     (case intentHandler_try cl ag of
        Inl (e, ag1, tr) \<Rightarrow> (ag1, tr, Some e)
      | Inr (dc, tr) \<Rightarrow> (dialogflowAgent dc, tr, None))"



text \<open>A hook, handler or navigation function that returns normally with the state \<open>f dc\<close>.\<close>

definition returning :: "(dialogContext \<Rightarrow> dialogContext) \<Rightarrow> hook" where
  "returning f = (\<lambda>dc. (Returned, f dc))"

section \<open>A sample configuration\<close>

text \<open>
  The sequence \<open>unassociated\<close> that the constructor of the client registers, and a small
  bot: a welcome sequence, a password reset that requires authentication, and the
  authentication sequence.
\<close>

definition unassociated :: sequence where
  "unassociated =
     \<lparr>seq_name = ''unassociated'', seq_activity = ''what we were doing'',
      seq_authRequired = False, seq_params = [(''none'', JString ''0'')],
      navigate = (\<lambda>dc. case setFulfillmentText JUndefined dc of
                          (Threw e, dc1) \<Rightarrow> (Threw e, dc1)
                        | (Returned, dc1) \<Rightarrow> (Returned, respondWithText JUndefined dc1))\<rparr>"

definition initializeSequenceManager :: "sequenceManager \<Rightarrow> outcome \<times> sequenceManager" where
  "initializeSequenceManager m = registerSequence unassociated m"

definition sample_sequence :: "string \<Rightarrow> string \<Rightarrow> bool \<Rightarrow> (string \<times> jsval) list \<Rightarrow> sequence" where
  "sample_sequence n act auth ps =
     \<lparr>seq_name = n, seq_activity = act, seq_authRequired = auth, seq_params = ps,
      navigate = returning (respondWithText JUndefined)\<rparr>"

definition sample_sequences :: sequenceManager where
  "sample_sequences =
     map_of [(''unassociated'', unassociated),
             (''welcome'', sample_sequence ''welcome'' ''greeting you'' False []),
             (''passwordreset'',
                sample_sequence ''passwordreset'' ''resetting your password'' True []),
             (''authentication'',
                sample_sequence ''authentication'' ''verifying your identity'' False [])]"

definition sample_intent :: "string \<Rightarrow> string \<Rightarrow> bool \<Rightarrow> hook \<Rightarrow> intent" where
  "sample_intent a sq w h = \<lparr>intent_action = a, sequenceName = sq, waitForReply = w, handler = h\<rparr>"

text \<open>
  The handler of \<open>lookup.account\<close> answers by itself, marks the response as set, and
  then fails.
\<close>

definition sample_intents :: "intent list" where
  "sample_intents =
     [sample_intent ''welcome'' ''welcome'' False
        (returning (setSessionParam ''lastFulfillmentText'' (JString ''Hi there!''))),
      sample_intent ''ask.wellbeing'' ''welcome'' True
        (returning (setSessionParam ''lastFulfillmentText'' (JString ''How are you today?''))),
      sample_intent ''welcome.ask.wellbeing'' ''welcome'' False
        (returning (setSessionParam ''lastFulfillmentText'' (JString ''Glad to hear it.''))),
      sample_intent ''lookup.account'' ''welcome'' False
        (\<lambda>dc. (Threw (Error ''lookup failed''),
               setSessionParam ''responseAlreadySet'' (JString ''1'')
                 (respondWithText (JString ''One moment please.'') dc)))]"

definition sample_client :: client where
  "sample_client =
     \<lparr>sequenceManager = sample_sequences,
      intentManager =
        \<lparr>intents = map_of (map (\<lambda>i. (intent_action i, i)) sample_intents),
         intentContexts = map_of (map (\<lambda>i. (intent_action i, sequenceName i)) sample_intents)\<rparr>,
      parameterSets = [[(''customerIdentified'', JString ''0''), (''offeredAgent'', JString ''0'')]],
      payloadHandlers =
        [returning (assignSessionParam ''interactionSource'' (JString ''chat'')),
         returning (assignSessionParam ''customerIdentified'' (JString ''1''))],
      populateFromEsPayload = returning (assignSessionParam ''payloadSeen'' (JString ''1'')),
      populateFromLookup = returning (assignSessionParam ''lookedUp'' (JString ''1'')),
      baseParams = (\<lambda>k. JUndefined)\<rparr>"

definition sample_agent :: "string \<Rightarrow> agent" where
  "sample_agent a =
     \<lparr>action = a, session = ''projects/demo/agent/sessions/abc123'',
      contexts = Map.empty, consoleMessages = [''Hi there!''],
      responses = [], followupEvent = None\<rparr>"

text \<open>A dialog context in mid-session, with the given session parameters on top of the base ones.\<close>

definition sample_dialogContext :: "string \<Rightarrow> (string \<times> jsval) list \<Rightarrow> agent \<Rightarrow> dialogContext" where
  "sample_dialogContext sq kvs ag =
     \<lparr>sessionId = ''abc123'', dialogflowAgent = ag,
      sessionParams =
        \<lparr>name = SESSION_PROPS, lifespan = 99,
         parameters = assign_all (baseParamWrites ''abc123'' @ kvs) (\<lambda>k. JUndefined)\<rparr>,
      currentSequence = sq, currentContext = None\<rparr>"

text \<open>
  The password reset is current and the authentication context carries the given
  validation status; no agent has been offered yet.
\<close>

definition sample_gate_dialogContext :: "string \<Rightarrow> dialogContext" where
  "sample_gate_dialogContext status =
     sample_dialogContext ''passwordreset''
       [(''sequenceCurrent'', JString ''passwordreset''),
        (''sequenceStack'', JString ''reasonforcontact|passwordreset''),
        (''sessionInitialized'', JString ''1''),
        (''customerIdentified'', JString ''1''),
        (''customerValidated'', JString ''0''),
        (''offeredAgent'', JString ''0'')]
       (context_set (createCtx ''authentication'' [(''validationStatus'', JString status)])
          (sample_agent ''passwordreset.start''))"

text \<open>
  A turn in mid-conversation: the last action was \<open>welcome\<close> and the user's reply was
  classified as \<open>ask.wellbeing\<close>.
\<close>

definition sample_reply_dialogContext :: dialogContext where
  "sample_reply_dialogContext =
     sample_dialogContext ''welcome'' [(''lastAction'', JString ''welcome'')]
       (sample_agent ''ask.wellbeing'')"

text \<open>The first turn of a session, and an agent that brings back an initialized session.\<close>

definition sample_first_dialogContext :: dialogContext where
  "sample_first_dialogContext = sample_dialogContext ''welcome'' [] (sample_agent ''welcome'')"

definition sample_later_agent :: agent where
  "sample_later_agent =
     context_set
       \<lparr>name = SESSION_PROPS, lifespan = 99,
        parameters = (\<lambda>k. if k = ''sessionInitialized'' then JString ''1'' else JUndefined)\<rparr>
       (sample_agent ''welcome'')"

section \<open>Basic facts about the operations\<close>

lemmas ctx_consts =
  DEF_CTX_LIFESPAN_def CTX_WELCOME_def CTX_RFC_def CTX_AUTH_def CTX_PWRESET_def
  SESSION_PROPS_def

lemmas sample_defs =
  sample_client_def sample_intents_def sample_intent_def sample_sequences_def
  sample_sequence_def sample_agent_def sample_dialogContext_def sample_gate_dialogContext_def
  sample_reply_dialogContext_def sample_first_dialogContext_def sample_later_agent_def
  unassociated_def returning_def

lemmas op_defs =
  params_def assignSessionParam_def updateDialogflowEsContext_def setSessionParam_def
  setSessionParams_def respondWithText_def respondWithEvent_def setFollowupEvent_def
  setFulfillmentText_def resetOfferedAgentFlags_def createCtx_def getOrCreateCtx_def
  isAuthRequired_def call_navigate_def popSequenceAndNavigate_def popSequence_def
  pushSequence_def context_get_def context_set_def agent_add_def agent_setFollowupEvent_def
  SequenceManager_get_def SequenceManager_get_val_def IntentManager_get_def
  IntentManager_has_def getContext_def hasContext_def js_arg_def js_default_def
  assign_all_def baseParamWrites_def activity_def

lemma params_assign [simp]: "params (assignSessionParam k v dc) = (params dc)(k := v)"
  by (simp add: params_def assignSessionParam_def)

lemma params_update [simp]: "params (updateDialogflowEsContext dc) = params dc"
  by (simp add: params_def updateDialogflowEsContext_def Let_def)

lemma params_setSessionParam [simp]: "params (setSessionParam k v dc) = (params dc)(k := v)"
  by (simp add: setSessionParam_def)

lemma params_setSessionParams [simp]:
  "params (setSessionParams kvs dc) = assign_all kvs (params dc)"
  unfolding setSessionParams_def assign_all_def
  by (induction kvs arbitrary: dc) (simp_all add: split_def)

lemma params_respondWithText [simp]: "params (respondWithText a dc) = params dc"
  by (simp add: respondWithText_def params_def Let_def)

lemma params_context_set_session [simp]: "params (context_set_session dc) = params dc"
  by (simp add: context_set_session_def params_def)

lemma responses_setSessionParam [simp]:
  "responses (dialogflowAgent (setSessionParam k v dc)) = responses (dialogflowAgent dc)"
  by (simp add: setSessionParam_def updateDialogflowEsContext_def assignSessionParam_def
      context_set_def Let_def)

lemma responses_respondWithText:
  "responses (dialogflowAgent (respondWithText a dc)) =
     responses (dialogflowAgent dc)
       @ [if js_default (JString ''|'') a \<noteq> JString ''|'' then js_default (JString ''|'') a
          else params dc ''lastFulfillmentText'']"
  by (simp add: respondWithText_def agent_add_def Let_def)

text \<open>
  Responding with the stored text emits exactly that value, whatever it is: an
  \<open>undefined\<close> or \<open>'|'\<close> argument falls back to the stored text itself.
\<close>

lemma respondWithText_stored:
  "responses (dialogflowAgent (respondWithText (params dc ''lastFulfillmentText'') dc)) =
     responses (dialogflowAgent dc) @ [params dc ''lastFulfillmentText'']"
  by (simp add: responses_respondWithText js_default_def)

lemma sample_reply_params:
  "params sample_reply_dialogContext ''sequenceStack'' = JString ''welcome''"
  "params sample_reply_dialogContext ''responseAlreadySet'' = JString ''0''"
  "params sample_reply_dialogContext ''lastAction'' = JString ''welcome''"
  "action (dialogflowAgent sample_reply_dialogContext) = ''ask.wellbeing''"
  "responses (dialogflowAgent sample_reply_dialogContext) = []"
  by (simp_all add: sample_defs params_def assign_all_def baseParamWrites_def)

section \<open>The sequence registry\<close>

text \<open>Registering a sequence under a new name succeeds and enters it under that name.\<close>

lemma registerSequence_registers:
  "seq_name s \<notin> dom m \<Longrightarrow> registerSequence s m = (Returned, m(seq_name s \<mapsto> s))"
  by (simp add: registerSequence_def SequenceManager_has_def domIff)

text \<open>
  Claim C7. Once a sequence is registered under its name, registering any sequence of
  the same name throws the duplicate-registration error and leaves the registry as it
  was: the first sequence is still returned, and a name that is not registered yields
  no sequence (the lookup is total and cannot throw).
\<close>

theorem registerSequence_duplicate:
  assumes "SequenceManager_get m (seq_name s) = Some s" and "seq_name s' = seq_name s"
  shows "registerSequence s' m =
           (Threw (Error (''Sequence '' @ seq_name s @ '' is already registered.'')), m)
       \<and> SequenceManager_get (snd (registerSequence s' m)) (seq_name s) = Some s
       \<and> (\<forall>n. n \<notin> dom m \<longrightarrow> SequenceManager_get m n = None)"
  using assms
  by (auto simp: registerSequence_def SequenceManager_get_def SequenceManager_has_def)

theorem registerSequence_duplicate_witness:
  "registerSequence unassociated Map.empty = (Returned, [''unassociated'' \<mapsto> unassociated])
 \<and> SequenceManager_get [''unassociated'' \<mapsto> unassociated] (seq_name unassociated) =
     Some unassociated
 \<and> seq_name (sample_sequence ''unassociated'' ''something else'' True []) = seq_name unassociated
 \<and> registerSequence (sample_sequence ''unassociated'' ''something else'' True [])
       [''unassociated'' \<mapsto> unassociated] =
     (Threw (Error ''Sequence unassociated is already registered.''),
      [''unassociated'' \<mapsto> unassociated])
 \<and> SequenceManager_get [''unassociated'' \<mapsto> unassociated] ''welcome'' = None"
proof -
  have n: "seq_name unassociated = ''unassociated''"
    by (simp add: unassociated_def)
  have r: "registerSequence unassociated Map.empty =
             (Returned, [''unassociated'' \<mapsto> unassociated])"
    by (simp add: registerSequence_registers n)
  have h1: "SequenceManager_get [''unassociated'' \<mapsto> unassociated] (seq_name unassociated) =
              Some unassociated"
    by (simp add: SequenceManager_get_def n)
  have h2: "seq_name (sample_sequence ''unassociated'' ''something else'' True []) =
              seq_name unassociated"
    by (simp add: sample_sequence_def n)
  have d: "''welcome'' \<notin> dom [''unassociated'' \<mapsto> unassociated]"
    by simp
  show ?thesis
    using registerSequence_duplicate [OF h1 h2] r h1 h2 n d
    by (simp add: SequenceManager_get_def)
qed

section \<open>The sequence stack\<close>

text \<open>
  Claim C5. \<open>pushSequence(n)\<close> always sets \<open>sequenceCurrent\<close> to \<open>n\<close>. On an idle stack
  (exactly \<open>welcome\<close> or the empty string) the stack becomes \<open>reasonforcontact|n\<close>, or
  just \<open>reasonforcontact\<close> when \<open>n\<close> is the root, and \<open>triggeredSkill\<close> is set to \<open>'1'\<close>
  exactly when \<open>n\<close> is not the root (otherwise it keeps its value). On any other stack
  \<open>|n\<close> is appended and \<open>triggeredSkill\<close> is left alone.
\<close>

theorem pushSequence_spec:
  "params (pushSequence n dc) ''sequenceCurrent'' = JString n \<and>
   (if params dc ''sequenceStack'' = JString ''welcome''
       \<or> params dc ''sequenceStack'' = JString []
    then params (pushSequence n dc) ''sequenceStack'' =
           JString (if n = ''reasonforcontact'' then ''reasonforcontact''
                    else ''reasonforcontact|'' @ n)
       \<and> params (pushSequence n dc) ''triggeredSkill'' =
           (if n \<noteq> ''reasonforcontact'' then JString ''1'' else params dc ''triggeredSkill'')
    else params (pushSequence n dc) ''sequenceStack'' =
           JString (js_toString (params dc ''sequenceStack'') @ ''|'' @ n)
       \<and> params (pushSequence n dc) ''triggeredSkill'' = params dc ''triggeredSkill'')"
  by (simp add: pushSequence_def Let_def ctx_consts)

theorem pushSequence_spec_witness:
  "params sample_reply_dialogContext ''sequenceStack'' = JString ''welcome''
 \<and> params (pushSequence ''authentication'' sample_reply_dialogContext) ''sequenceCurrent'' =
     JString ''authentication''
 \<and> params (pushSequence ''authentication'' sample_reply_dialogContext) ''sequenceStack'' =
     JString ''reasonforcontact|authentication''
 \<and> params (pushSequence ''authentication'' sample_reply_dialogContext) ''triggeredSkill'' =
     JString ''1''"
  using pushSequence_spec [of "''authentication''" sample_reply_dialogContext]
    sample_reply_params(1)
  by simp

text \<open>
  Claim C6. On a stack without a \<open>|\<close> separator \<open>popSequence(n)\<close> returns normally and
  resets both \<open>sequenceCurrent\<close> and \<open>sequenceStack\<close> to \<open>reasonforcontact\<close>, whatever
  \<open>n\<close> and whatever the single entry.
\<close>

theorem popSequence_single_entry:
  assumes "params dc ''sequenceStack'' = JString s" and "CHR ''|'' \<notin> set s"
  shows "fst (popSequence n dc) = Returned
       \<and> params (snd (popSequence n dc)) ''sequenceCurrent'' = JString ''reasonforcontact''
       \<and> params (snd (popSequence n dc)) ''sequenceStack'' = JString ''reasonforcontact''"
  using assms by (simp add: popSequence_def ctx_consts assign_all_def)

theorem popSequence_single_entry_witness:
  "params sample_reply_dialogContext ''sequenceStack'' = JString ''welcome''
 \<and> CHR ''|'' \<notin> set ''welcome''
 \<and> fst (popSequence ''authentication'' sample_reply_dialogContext) = Returned
 \<and> params (snd (popSequence ''authentication'' sample_reply_dialogContext)) ''sequenceCurrent'' =
     JString ''reasonforcontact''
 \<and> params (snd (popSequence ''authentication'' sample_reply_dialogContext)) ''sequenceStack'' =
     JString ''reasonforcontact''"
proof -
  have h: "CHR ''|'' \<notin> set ''welcome''"
    by simp
  show ?thesis
    using popSequence_single_entry [OF sample_reply_params(1) h, of "''authentication''"]
      sample_reply_params(1) h
    by simp
qed

section \<open>Which user code the orchestration calls\<close>







lemma resetResponseAlreadySet_trace [simp]:
  "snd (snd (resetResponseAlreadySet r)) = snd (snd r)"
  by (simp add: resetResponseAlreadySet_def split: prod.splits outcome.splits)

section \<open>Intent resolution\<close>

lemma responses_assignSessionParam [simp]:
  "responses (dialogflowAgent (assignSessionParam k v dc)) = responses (dialogflowAgent dc)"
  by (simp add: assignSessionParam_def)

lemma responses_context_set_session [simp]:
  "responses (dialogflowAgent (context_set_session dc)) = responses (dialogflowAgent dc)"
  by (simp add: context_set_session_def context_set_def)




section \<open>Turn execution\<close>

text \<open>
  Claim C2. For an intent with \<open>waitForReply\<close> whose handler returns with
  \<open>responseAlreadySet\<close> different from \<open>'1'\<close>, \<open>handleIntentAndNavigate\<close> returns
  normally, sets \<open>lastAction\<close> to the resolved action and adds the stored
  \<open>lastFulfillmentText\<close> to the response. The only call into user code is the handler:
  neither the authentication gate nor any \<open>navigate\<close> is called.
\<close>

theorem waitForReply_breaks:
  assumes "IntentManager_get (intentManager cl) a = Some i"
      and "waitForReply i"
      and "handler i dc = (Returned, dc1)"
      and "params dc1 ''responseAlreadySet'' \<noteq> JString ''1''"
  shows "fst (handleIntentAndNavigate cl dc a) = Returned
       \<and> snd (snd (handleIntentAndNavigate cl dc a)) = [EvHandler a]
       \<and> params (fst (snd (handleIntentAndNavigate cl dc a))) ''lastAction'' = JString a
       \<and> responses (dialogflowAgent (fst (snd (handleIntentAndNavigate cl dc a)))) =
           responses (dialogflowAgent dc1) @ [params dc1 ''lastFulfillmentText'']"
proof -
  let ?dc2 = "setSessionParam ''lastAction'' (JString a) dc1"
  have "handleIntentAndNavigate cl dc a =
          (Returned, respondWithText (params ?dc2 ''lastFulfillmentText'') ?dc2, [EvHandler a])"
    using assms by (simp add: handleIntentAndNavigate_def Let_def)
  moreover have "params ?dc2 ''lastFulfillmentText'' = params dc1 ''lastFulfillmentText''"
    by simp
  ultimately show ?thesis
    using respondWithText_stored [of ?dc2] by simp
qed

theorem waitForReply_breaks_witness:
  "waitForReply (sample_intent ''ask.wellbeing'' ''welcome'' True
       (returning (setSessionParam ''lastFulfillmentText'' (JString ''How are you today?''))))
 \<and> fst (handleIntentAndNavigate sample_client sample_reply_dialogContext ''ask.wellbeing'') =
     Returned
 \<and> snd (snd (handleIntentAndNavigate sample_client sample_reply_dialogContext
       ''ask.wellbeing'')) = [EvHandler ''ask.wellbeing'']
 \<and> params (fst (snd (handleIntentAndNavigate sample_client sample_reply_dialogContext
       ''ask.wellbeing''))) ''lastAction'' = JString ''ask.wellbeing''
 \<and> responses (dialogflowAgent (fst (snd (handleIntentAndNavigate sample_client
       sample_reply_dialogContext ''ask.wellbeing'')))) = [JString ''How are you today?'']"
proof -
  let ?f = "setSessionParam ''lastFulfillmentText'' (JString ''How are you today?'')"
  let ?i = "sample_intent ''ask.wellbeing'' ''welcome'' True (returning ?f)"
  have h1: "IntentManager_get (intentManager sample_client) ''ask.wellbeing'' = Some ?i"
    by (simp add: IntentManager_get_def sample_client_def sample_intents_def
        sample_intent_def)
  have h2: "waitForReply ?i"
    by (simp add: sample_intent_def)
  have h3: "handler ?i sample_reply_dialogContext = (Returned, ?f sample_reply_dialogContext)"
    by (simp add: sample_intent_def returning_def)
  have h4: "params (?f sample_reply_dialogContext) ''responseAlreadySet'' \<noteq> JString ''1''"
    by (simp add: sample_reply_params)
  show ?thesis
    using waitForReply_breaks [OF h1 h2 h3 h4] h2 sample_reply_params
    by simp
qed

section \<open>The authentication gate on the sample bot\<close>

text \<open>
  Claim C3, evaluated. The password reset is current, the authentication context has
  \<open>validationStatus = '2'\<close> and \<open>offeredAgent\<close> is \<open>'0'\<close>. The gate returns without
  calling any \<open>navigate\<close>, but the apology does not mention the activity of the
  sequence (\<open>resetting your password\<close>): the property \<open>activity\<close> has no getter, so the
  text reads \<open>undefined\<close>. And the follow-up event is not \<open>OfferSpeakToAgent\<close>:
  \<open>setFollowupEvent\<close> takes the event name first, the call passes the agent object
  first, and it is the agent object that is recorded as \<open>lastEvent\<close> and raised.
\<close>

theorem gate_failed_validation_offer:
  "fst (handleRequireAuthentication sample_sequences (sample_gate_dialogContext ''2'')) =
     Returned
 \<and> snd (snd (handleRequireAuthentication sample_sequences (sample_gate_dialogContext ''2''))) =
     []
 \<and> params (fst (snd (handleRequireAuthentication sample_sequences
       (sample_gate_dialogContext ''2'')))) ''lastFulfillmentText'' =
     JString ''I'm sorry, but undefined isn't something I can do without validating your identity.''
 \<and> params (fst (snd (handleRequireAuthentication sample_sequences
       (sample_gate_dialogContext ''2'')))) ''lastEvent'' = JObject AgentObject
 \<and> followupEvent (dialogflowAgent (fst (snd (handleRequireAuthentication sample_sequences
       (sample_gate_dialogContext ''2''))))) = Some (JObject AgentObject)"
proof -
  have "case handleRequireAuthentication sample_sequences (sample_gate_dialogContext ''2'') of
          (out, dc', tr) \<Rightarrow>
            out = Returned \<and> tr = []
          \<and> params dc' ''lastFulfillmentText'' =
              JString ''I'm sorry, but undefined isn't something I can do without validating your identity.''
          \<and> params dc' ''lastEvent'' = JObject AgentObject
          \<and> followupEvent (dialogflowAgent dc') = Some (JObject AgentObject)"
    by (simp add: handleRequireAuthentication_def requireAuthentication_tail_def
        sample_defs op_defs ctx_consts Let_def)
  then show ?thesis
    by (simp add: split_def)
qed

text \<open>
  Claim C4, evaluated. Same session, but the authentication context has
  \<open>validationStatus = '1'\<close>. The gate sets \<open>customerValidated\<close> and navigates the
  password reset, and then goes on: it pushes the authentication sequence, which
  becomes current, and navigates it too.
\<close>

theorem gate_validated_falls_through:
  "fst (handleRequireAuthentication sample_sequences (sample_gate_dialogContext ''1'')) =
     Returned
 \<and> snd (snd (handleRequireAuthentication sample_sequences (sample_gate_dialogContext ''1''))) =
     [EvNavigate ''passwordreset'', EvNavigate ''authentication'']
 \<and> params (fst (snd (handleRequireAuthentication sample_sequences
       (sample_gate_dialogContext ''1'')))) ''customerValidated'' = JString ''1''
 \<and> params (fst (snd (handleRequireAuthentication sample_sequences
       (sample_gate_dialogContext ''1'')))) ''sequenceCurrent'' = JString ''authentication''
 \<and> params (fst (snd (handleRequireAuthentication sample_sequences
       (sample_gate_dialogContext ''1'')))) ''sequenceStack'' =
     JString ''reasonforcontact|passwordreset|authentication''"
proof -
  have "case handleRequireAuthentication sample_sequences (sample_gate_dialogContext ''1'') of
          (out, dc', tr) \<Rightarrow>
            out = Returned
          \<and> tr = [EvNavigate ''passwordreset'', EvNavigate ''authentication'']
          \<and> params dc' ''customerValidated'' = JString ''1''
          \<and> params dc' ''sequenceCurrent'' = JString ''authentication''
          \<and> params dc' ''sequenceStack'' =
              JString ''reasonforcontact|passwordreset|authentication''"
    by (simp add: handleRequireAuthentication_def requireAuthentication_tail_def
        sample_defs op_defs ctx_consts Let_def)
  then show ?thesis
    by (simp add: split_def)
qed

section \<open>Session props share the base parameters\<close>

text \<open>
  Claim C10. Every context that \<open>createEsSessionProps\<close> returns for a client holds the
  address of the one \<open>_baseParams\<close> object of that client. After a call for session
  \<open>s1\<close> the first context reads \<open>sessionId = s1\<close>; after a further call for session
  \<open>s2\<close> the second context has the same parameters object, and the first context now
  reads \<open>sessionId = s2\<close>.
\<close>

theorem createEsSessionProps_shares_baseParams:
  "(case createEsSessionProps b s1 st of (c1, st1) \<Rightarrow>
      case createEsSessionProps b s2 st1 of (c2, st2) \<Rightarrow>
        ref_parameters c1 = b \<and> ref_parameters c2 = ref_parameters c1
      \<and> read_parameter st1 c1 ''sessionId'' = JString s1
      \<and> read_parameter st2 c1 ''sessionId'' = JString s2)"
  by (simp add: createEsSessionProps_def read_parameter_def assign_all_def baseParamWrites_def)

section \<open>Session bootstrap\<close>













section \<open>The reset of \<open>responseAlreadySet\<close>\<close>

lemma resetResponseAlreadySet_Returned:
  assumes "resetResponseAlreadySet r = (Returned, dc', tr)"
  shows "context_get (dialogflowAgent dc') (name (sessionParams dc')) = Some (sessionParams dc')
       \<and> params dc' ''responseAlreadySet'' = JString ''0''"
  using assms
  by (auto simp: resetResponseAlreadySet_def context_set_session_def context_set_def
      context_get_def assignSessionParam_def params_def split: prod.splits outcome.splits)

lemma intentHandler_resolve_Returned:
  assumes "intentHandler_resolve cl sq dc = (Returned, dc', tr)"
  shows "context_get (dialogflowAgent dc') (name (sessionParams dc')) = Some (sessionParams dc')
       \<and> params dc' ''responseAlreadySet'' = JString ''0''"
  using assms unfolding intentHandler_resolve_def
  by (auto simp: Let_def split: if_splits sum.splits prod.splits outcome.splits
      option.splits jsval.splits dest: resetResponseAlreadySet_Returned)

text \<open>
  Claim C9, as stated, fails: the reset is the last statement of each branch of the
  resolution chain, not a \<open>finally\<close> clause. On the first turn of a session with the
  detected action \<open>lookup.account\<close>, the handler responds, sets \<open>responseAlreadySet\<close> to
  \<open>'1'\<close> and throws; the \<open>catch\<close> clause logs the error and the request ends with
  \<open>responseAlreadySet = '1'\<close> in the stored session props.
\<close>

theorem responseAlreadySet_survives_throw:
  "snd (snd (intentHandler sample_client (sample_agent ''lookup.account''))) =
     Some (Error ''lookup failed'')
 \<and> context_get (fst (intentHandler sample_client (sample_agent ''lookup.account'')))
       SESSION_PROPS \<noteq> None
 \<and> parameters (the (context_get (fst (intentHandler sample_client
       (sample_agent ''lookup.account''))) SESSION_PROPS)) ''responseAlreadySet'' = JString ''1''"
proof -
  have "case intentHandler sample_client (sample_agent ''lookup.account'') of
          (ag', tr, err) \<Rightarrow>
            err = Some (Error ''lookup failed'')
          \<and> (case context_get ag' SESSION_PROPS of
                None \<Rightarrow> False
              | Some c \<Rightarrow> parameters c ''responseAlreadySet'' = JString ''1'')"
    by (simp add: intentHandler_def intentHandler_try_def intentHandler_prelude_def
        intentHandler_bootstrap_def intentHandler_resolve_def handleIntentAndNavigate_def
        resetResponseAlreadySet_def getOrCreateEsSessionProps_def
        createEsSessionProps_value_def createEsSessionProps_def context_set_session_def
        sample_defs op_defs ctx_consts Let_def)
  then show ?thesis
    by (auto simp: split_def split: option.splits)
qed

text \<open>
  Claim C9, amended. Whenever the \<open>try\<close> block of the entry point runs to its end
  (no error is thrown by the lookups, the hooks, the handler or a navigation), whatever
  branch of the resolution chain and of the gating was taken, the session props are in
  the store under their name with \<open>responseAlreadySet = '0'\<close> when the request ends.
\<close>

theorem responseAlreadySet_reset_on_completion:
  assumes "intentHandler_try cl ag = Inr (dc', tr)"
  shows "context_get (dialogflowAgent dc') (name (sessionParams dc')) = Some (sessionParams dc')
       \<and> params dc' ''responseAlreadySet'' = JString ''0''
       \<and> intentHandler cl ag = (dialogflowAgent dc', tr, None)"
proof -
  from assms obtain sq dc1 tr1 where "intentHandler_resolve cl sq dc1 = (Returned, dc', tr1)"
    by (auto simp: intentHandler_try_def split: sum.splits prod.splits outcome.splits)
  then show ?thesis
    using assms intentHandler_resolve_Returned by (simp add: intentHandler_def)
qed

theorem responseAlreadySet_reset_on_completion_witness:
  "\<not> isl (intentHandler_try sample_client (sample_agent ''welcome''))
 \<and> snd (snd (intentHandler sample_client (sample_agent ''welcome''))) = None
 \<and> context_get (fst (intentHandler sample_client (sample_agent ''welcome''))) SESSION_PROPS \<noteq>
     None
 \<and> parameters (the (context_get (fst (intentHandler sample_client (sample_agent ''welcome'')))
       SESSION_PROPS)) ''responseAlreadySet'' = JString ''0''"
proof -
  let ?r = "intentHandler_try sample_client (sample_agent ''welcome'')"
  have "case ?r of Inl x \<Rightarrow> False
        | Inr (dc', tr) \<Rightarrow> name (sessionParams dc') = SESSION_PROPS"
    by (simp add: intentHandler_try_def intentHandler_prelude_def
        intentHandler_bootstrap_def intentHandler_resolve_def handleIntentAndNavigate_def
        resetResponseAlreadySet_def getOrCreateEsSessionProps_def
        createEsSessionProps_value_def createEsSessionProps_def context_set_session_def
        sample_defs op_defs ctx_consts Let_def)
  then have n: "\<not> isl ?r" and nm: "name (sessionParams (fst (projr ?r))) = SESSION_PROPS"
    by (auto split: sum.splits prod.splits)
  from n have e: "?r = Inr (fst (projr ?r), snd (projr ?r))"
    by (cases ?r) simp_all
  show ?thesis
    using responseAlreadySet_reset_on_completion [OF e] n nm
    by (simp add: params_def)
qed

end
